theory Spec2Isabelle
  imports Complex_Main "HOL-Library.AList"
begin

section \<open>Futures (class Future of hazelcast/invocation.py)\<close>

text \<open>
  Exceptions are values. The constructors are the classes the source distinguishes with
  \<^verbatim>\<open>isinstance\<close> or raises itself; every other decoded error is an \<open>OtherError\<close>.
  An exception object is truthy in Python, so a stored exception is \<open>Some x\<close> and the
  class attribute's initial \<^verbatim>\<open>None\<close> is \<open>None\<close>.
\<close>

datatype exn =
  IOError string
| HazelcastInstanceNotActiveError string
| TimeoutError string
| OtherError string

text \<open>
  A Python value is \<open>'v option\<close>, with \<open>None\<close> for Python's \<^verbatim>\<open>None\<close>. A callback receives
  the future object; what it can read of it (\<^verbatim>\<open>_result\<close>, \<^verbatim>\<open>_exception\<close>, the event) is a \<open>view\<close>.
\<close>

datatype 'v view = View (v_result: "'v option") (v_exception: "exn option") (v_done: bool)

text \<open>
  A future owns its callback list. The closure built by \<^verbatim>\<open>continue_with\<close> holds the
  continuation function (\<open>Inl\<close>: it raises) and the new future it resolves; that future is
  reachable only through this closure and the handle returned to the caller, so it lives
  inside the callback. Any other callback is the caller's code: it is given by whether it
  raises on a view, and it records the views it has been called with.
\<close>

datatype 'v future =
  Future (f_result: "'v option") (f_exception: "exn option") (f_event: bool)
         (f_callbacks: "'v callback list")
and 'v callback =
  Continuation "'v view \<Rightarrow> exn + 'v option" "'v future"
| External "'v view \<Rightarrow> bool" "'v view list"

text \<open>\<^verbatim>\<open>Future()\<close>: class attributes \<^verbatim>\<open>_result = None\<close>, \<^verbatim>\<open>_exception = None\<close>, no callback, event clear.\<close>

definition new_future :: "'v future" where
  "new_future = Future None None False []"

text \<open>
  \<^verbatim>\<open>set_result\<close>, \<^verbatim>\<open>set_exception\<close> and \<^verbatim>\<open>_invoke_cb\<close>. Both setters assign their field
  with no test of the event, set the event and run every callback on the updated future
  (\<^verbatim>\<open>_invoke_callbacks\<close> is the \<open>map\<close>). \<^verbatim>\<open>_invoke_cb\<close> swallows whatever the callback raises.
\<close>

fun set_result :: "'v option \<Rightarrow> 'v future \<Rightarrow> 'v future"
  and set_exception :: "exn \<Rightarrow> 'v future \<Rightarrow> 'v future"
  and priv_invoke_cb :: "'v view \<Rightarrow> 'v callback \<Rightarrow> 'v callback" where
  "set_result r (Future _ e _ cbs) =
     Future r e True (map (priv_invoke_cb (View r e True)) cbs)"
| "set_exception x (Future r _ _ cbs) =
     Future r (Some x) True (map (priv_invoke_cb (View r (Some x) True)) cbs)"
| "priv_invoke_cb vw (Continuation func tgt) =
     Continuation func
       (case func vw of Inr y \<Rightarrow> set_result y tgt | Inl x \<Rightarrow> set_exception x tgt)"
| "priv_invoke_cb vw (External raises calls) = External raises (calls @ [vw])"

text \<open>\<^verbatim>\<open>result()\<close> waits for the event: on an unresolved future it does not return.\<close>

datatype 'v outcome = Blocks | Raises exn | Returns "'v option"

definition result :: "'v future \<Rightarrow> 'v outcome" where
  "result fut =
     (if \<not> f_event fut then Blocks
      else case f_exception fut of Some x \<Rightarrow> Raises x | None \<Rightarrow> Returns (f_result fut))"

definition done_future :: "'v future \<Rightarrow> bool" where
  "done_future fut = f_event fut"

definition running :: "'v future \<Rightarrow> bool" where
  "running fut = (\<not> done_future fut)"











section \<open>Invocations and the invocation service\<close>

subsection \<open>Collaborators\<close>

text \<open>
  Modelled from the spec: the Message collaborator (\<^verbatim>\<open>hazelcast.protocol.client_message\<close>
  is not part of the sources). It carries a settable correlation id and partition id, the
  flag bit read by \<^verbatim>\<open>has_flags(LISTENER_FLAG)\<close>, the message type compared with
  \<^verbatim>\<open>EXCEPTION_MESSAGE_TYPE\<close>, and the marker read by \<^verbatim>\<open>is_retryable()\<close>.
\<close>

record message =
  m_correlation_id :: int
  m_partition_id :: int
  m_listener_flag :: bool
  m_message_type :: int
  m_retryable :: bool
  m_payload :: string

text \<open>
  The names imported from \<^verbatim>\<open>hazelcast.exception\<close> and \<^verbatim>\<open>hazelcast.protocol.custom_codec\<close>
  are parameters: the exception message type, the decoder
  \<^verbatim>\<open>create_exception(ErrorCodec(message))\<close> and the error catalog \<^verbatim>\<open>is_retryable_error\<close>.
\<close>

record protocol =
  EXCEPTION_MESSAGE_TYPE :: int
  create_exception :: "message \<Rightarrow> exn"
  is_retryable_error :: "exn \<Rightarrow> bool"

type_synonym address = string

text \<open>A connection is an object; \<^verbatim>\<open>==\<close> on connections is identity.\<close>

type_synonym connection = nat

text \<open>An event handler is the caller's code: \<open>Some x\<close> when it raises \<open>x\<close> on the message.\<close>

type_synonym event_handler = "message \<Rightarrow> exn option"

definition INVOCATION_TIMEOUT :: real where
  "INVOCATION_TIMEOUT = 120"

definition RETRY_WAIT_TIME_IN_SECONDS :: real where
  "RETRY_WAIT_TIME_IN_SECONDS = 1"

subsection \<open>class Invocation\<close>

text \<open>
  \<open>timeout\<close> is the absolute deadline \<^verbatim>\<open>timeout + time.time()\<close>; \<open>timer\<close> is the handle
  returned by the reactor, \<open>None\<close> for the class attribute's \<^verbatim>\<open>None\<close>. The attributes
  \<^verbatim>\<open>sent_connection\<close> and \<^verbatim>\<open>_event\<close> are never read and are left out.
\<close>

record invocation =
  timeout :: real
  address :: "address option"
  connection :: "connection option"
  partition_id :: int
  request :: message
  event_handler :: "event_handler option"
  future :: "message future"
  timer :: "nat option"

definition has_connection :: "invocation \<Rightarrow> bool" where
  "has_connection iv = (connection iv \<noteq> None)"

definition has_event_handler :: "invocation \<Rightarrow> bool" where
  "has_event_handler iv = (event_handler iv \<noteq> None)"

definition has_partition_id :: "invocation \<Rightarrow> bool" where
  "has_partition_id iv = (partition_id iv \<ge> 0)"

definition has_address :: "invocation \<Rightarrow> bool" where
  "has_address iv = (address iv \<noteq> None)"

subsection \<open>The state of the service and of what it talks to\<close>

text \<open>What the reactor is asked to call: \<^verbatim>\<open>invocation.on_timeout\<close>, or the partial \<^verbatim>\<open>_invoke(invocation)\<close>.\<close>

datatype timer_callback = On_timeout nat | Invoke nat

datatype scheduled = Absolute real timer_callback | Relative real timer_callback

datatype log_entry =
  Debug_sending message
| Debug_received message
| Debug_exception message exn
| Debug_rescheduling message real
| Warn_unknown_event message
| Warn_unknown message
| Warn_event_error message

text \<open>
  Invocations are objects shared by the tables, the timers and the caller, so they live in
  a store \<open>invocations\<close> indexed by object identity, and the tables hold identities. The
  dictionaries \<^verbatim>\<open>_pending\<close> and \<^verbatim>\<open>_listeners\<close> are association lists from correlation ids.

  The remaining fields are the collaborators. Modelled from the spec: the partition service
  (\<open>partition_owner\<close>), the load balancer (the address of its \<open>n\<close>-th call), the connection
  manager (\<open>connect\<close>), the timer service (the callbacks scheduled so far, a handle being a
  position in \<open>timers\<close>, and the set of cancelled handles) and the connection (whether the
  inbound callback slot is filled). \<open>clock\<close> is the \<open>n\<close>-th reading of \<^verbatim>\<open>time.time()\<close>.
  \<open>wire\<close>, \<open>handled\<close> and \<open>logged\<close> record the messages sent, the event handler calls and
  the log lines.
\<close>

record service =
  pending :: "(int \<times> nat) list"
  listeners :: "(int \<times> nat) list"
  next_correlation_id :: int
  is_redo_operation :: bool
  invocations :: "nat \<Rightarrow> invocation"
  next_invocation :: nat
  partition_owner :: "int \<Rightarrow> address"
  lb_addresses :: "nat \<Rightarrow> address"
  lb_calls :: nat
  connect :: "address \<Rightarrow> connection"
  timers :: "scheduled list"
  cancelled :: "nat set"
  clock :: "nat \<Rightarrow> real"
  ticks :: nat
  conn_callback :: "connection set"
  wire :: "(connection \<times> message) list"
  handled :: "(nat \<times> message) list"
  logged :: "log_entry list"

text \<open>\<^verbatim>\<open>time.time()\<close>\<close>

definition time_time :: "service \<Rightarrow> real \<times> service" where
  "time_time s = (clock s (ticks s), s\<lparr>ticks := Suc (ticks s)\<rparr>)"

text \<open>\<^verbatim>\<open>load_balancer.next_address()\<close>\<close>

definition next_address :: "service \<Rightarrow> address \<times> service" where
  "next_address s = (lb_addresses s (lb_calls s), s\<lparr>lb_calls := Suc (lb_calls s)\<rparr>)"

text \<open>\<^verbatim>\<open>reactor.add_timer_absolute\<close>, \<^verbatim>\<open>reactor.add_timer\<close> and \<^verbatim>\<open>timer.cancel()\<close>\<close>

definition add_timer_absolute :: "real \<Rightarrow> timer_callback \<Rightarrow> service \<Rightarrow> nat \<times> service" where
  "add_timer_absolute t cb s = (length (timers s), s\<lparr>timers := timers s @ [Absolute t cb]\<rparr>)"

definition add_timer :: "real \<Rightarrow> timer_callback \<Rightarrow> service \<Rightarrow> nat \<times> service" where
  "add_timer d cb s = (length (timers s), s\<lparr>timers := timers s @ [Relative d cb]\<rparr>)"

definition cancel :: "nat \<Rightarrow> service \<Rightarrow> service" where
  "cancel h s = s\<lparr>cancelled := insert h (cancelled s)\<rparr>"

text \<open>
  \<^verbatim>\<open>connection.send_message(message)\<close> is the transport's code and may do anything with the
  service, deliver a response included; the functions that send take it as the parameter
  \<open>tr\<close>. \<open>wire_send\<close> is the transport that only records the message.
\<close>

type_synonym transport = "connection \<Rightarrow> message \<Rightarrow> service \<Rightarrow> service"

definition wire_send :: transport where
  "wire_send c msg s = s\<lparr>wire := wire s @ [(c, msg)]\<rparr>"

definition debug :: "log_entry \<Rightarrow> service \<Rightarrow> service" where
  "debug e s = s\<lparr>logged := logged s @ [e]\<rparr>"

definition warn :: "log_entry \<Rightarrow> service \<Rightarrow> service" where
  "warn e s = s\<lparr>logged := logged s @ [e]\<rparr>"

subsection \<open>Methods of Invocation, on the store\<close>

text \<open>\<^verbatim>\<open>Invocation.__init__\<close>: a new object, its deadline read from the clock.\<close>

definition new_invocation ::
  "message \<Rightarrow> int \<Rightarrow> address option \<Rightarrow> connection option \<Rightarrow> event_handler option \<Rightarrow> real \<Rightarrow>
   service \<Rightarrow> nat \<times> service" where
  "new_invocation req pid addr conn handler tmo s =
     (let (now, s1) = time_time s;
          i = next_invocation s1;
          iv = \<lparr>timeout = tmo + now, address = addr, connection = conn, partition_id = pid,
                 request = req, event_handler = handler, future = new_future, timer = None\<rparr>
      in (i, s1\<lparr>invocations := (invocations s1)(i := iv), next_invocation := Suc i\<rparr>))"

definition cancel_timer :: "nat \<Rightarrow> service \<Rightarrow> service" where
  "cancel_timer i s = (case timer (invocations s i) of Some h \<Rightarrow> cancel h s | None \<Rightarrow> s)"

definition update_future :: "nat \<Rightarrow> (message future \<Rightarrow> message future) \<Rightarrow> service \<Rightarrow> service" where
  "update_future i f s =
     s\<lparr>invocations := (invocations s)(i := (invocations s i)\<lparr>future := f (future (invocations s i))\<rparr>)\<rparr>"

text \<open>\<^verbatim>\<open>Invocation.set_response\<close> and \<^verbatim>\<open>Invocation.set_exception\<close>: cancel the timer if there is one, then resolve.\<close>

definition invocation_set_response :: "nat \<Rightarrow> message \<Rightarrow> service \<Rightarrow> service" where
  "invocation_set_response i response s =
     update_future i (set_result (Some response)) (cancel_timer i s)"

definition invocation_set_exception :: "nat \<Rightarrow> exn \<Rightarrow> service \<Rightarrow> service" where
  "invocation_set_exception i x s =
     update_future i (set_exception x) (cancel_timer i s)"

definition on_timeout :: "nat \<Rightarrow> service \<Rightarrow> service" where
  "on_timeout i s =
     invocation_set_exception i (TimeoutError ''Request timed out after 120 seconds.'') s"

subsection \<open>class InvocationService\<close>

text \<open>
  \<^verbatim>\<open>InvocationService(client)\<close>: empty tables, the counter at 1, redo off. The collaborators
  come with the client.
\<close>

definition new_service ::
  "(int \<Rightarrow> address) \<Rightarrow> (nat \<Rightarrow> address) \<Rightarrow> (address \<Rightarrow> connection) \<Rightarrow> (nat \<Rightarrow> real) \<Rightarrow> service" where
  "new_service owner lb conn clk =
     \<lparr>pending = [], listeners = [], next_correlation_id = 1, is_redo_operation = False,
      invocations = (\<lambda>_. \<lparr>timeout = 0, address = None, connection = None, partition_id = -1,
                           request = \<lparr>m_correlation_id = 0, m_partition_id = -1,
                                      m_listener_flag = False, m_message_type = 0,
                                      m_retryable = False, m_payload = []\<rparr>,
                           event_handler = None, future = new_future, timer = None\<rparr>),
      next_invocation = 0, partition_owner = owner, lb_addresses = lb, lb_calls = 0,
      connect = conn, timers = [], cancelled = {}, clock = clk, ticks = 0,
      conn_callback = {}, wire = [], handled = [], logged = []\<rparr>"

text \<open>
  \<^verbatim>\<open>handle_event\<close>: call the handler; whatever it raises is logged. Calling a handler that
  is \<^verbatim>\<open>None\<close> raises too, and is logged the same way.
\<close>

definition handle_event :: "nat \<Rightarrow> message \<Rightarrow> service \<Rightarrow> service" where
  "handle_event i msg s =
     (case event_handler (invocations s i) of
        None \<Rightarrow> warn (Warn_event_error msg) s
      | Some h \<Rightarrow>
          (let s1 = s\<lparr>handled := handled s @ [(i, msg)]\<rparr>
           in case h msg of None \<Rightarrow> s1 | Some _ \<Rightarrow> warn (Warn_event_error msg) s1))"

text \<open>
  \<^verbatim>\<open>_send\<close>: \<^verbatim>\<open>increment_and_get\<close>, stamp the request, enter the pending table, arm the
  deadline timer unless the invocation has one, enter the listeners table if there is an
  event handler, fill the connection's callback slot if it is empty, send.
  Modelled from the spec: \<^verbatim>\<open>AtomicInteger\<close> (\<^verbatim>\<open>hazelcast.util\<close>) is a monotonically
  increasing counter; \<^verbatim>\<open>increment_and_get\<close> adds one and returns the new value.
\<close>

definition priv_send :: "transport \<Rightarrow> nat \<Rightarrow> connection \<Rightarrow> service \<Rightarrow> service" where
  "priv_send tr i c s =
     (let correlation_id = next_correlation_id s + 1;
          s1 = s\<lparr>next_correlation_id := correlation_id\<rparr>;
          msg = (request (invocations s1 i))
                  \<lparr>m_correlation_id := correlation_id,
                   m_partition_id := partition_id (invocations s1 i)\<rparr>;
          s2 = s1\<lparr>invocations := (invocations s1)(i := (invocations s1 i)\<lparr>request := msg\<rparr>)\<rparr>;
          s3 = s2\<lparr>pending := AList.update correlation_id i (pending s2)\<rparr>;
          s4 = (case timer (invocations s3 i) of
                  Some _ \<Rightarrow> s3
                | None \<Rightarrow>
                    (let (h, s') = add_timer_absolute (timeout (invocations s3 i)) (On_timeout i) s3
                     in s'\<lparr>invocations := (invocations s')(i := (invocations s' i)\<lparr>timer := Some h\<rparr>)\<rparr>));
          s5 = (if has_event_handler (invocations s4 i)
                then s4\<lparr>listeners := AList.update correlation_id i (listeners s4)\<rparr>
                else s4);
          s6 = debug (Debug_sending msg) s5;
          s7 = (if c \<notin> conn_callback s6
                then s6\<lparr>conn_callback := insert c (conn_callback s6)\<rparr>
                else s6)
      in tr c msg s7)"

definition priv_send_to_address :: "transport \<Rightarrow> nat \<Rightarrow> address \<Rightarrow> service \<Rightarrow> service" where
  "priv_send_to_address tr i addr s = priv_send tr i (connect s addr) s"

text \<open>\<^verbatim>\<open>_invoke\<close>: the routing decision. It returns the invocation it was given.\<close>

definition priv_invoke :: "transport \<Rightarrow> nat \<Rightarrow> service \<Rightarrow> service" where
  "priv_invoke tr i s =
     (if has_connection (invocations s i) then
        (case connection (invocations s i) of
           Some c \<Rightarrow> priv_send tr i c s
         | None \<Rightarrow> s)
      else if has_partition_id (invocations s i) then
        (let addr = partition_owner s (partition_id (invocations s i))
         in priv_send_to_address tr i addr s)
      else if has_address (invocations s i) then
        (case address (invocations s i) of
           Some a \<Rightarrow> priv_send_to_address tr i a s
         | None \<Rightarrow> s)
      else
        (let (addr, s1) = next_address s
         in priv_send_to_address tr i addr s1))"

definition invoke_on_connection ::
  "transport \<Rightarrow> message \<Rightarrow> connection \<Rightarrow> event_handler option \<Rightarrow> service \<Rightarrow> nat \<times> service" where
  "invoke_on_connection tr msg c handler s =
     (let (i, s1) = new_invocation msg (-1) None (Some c) handler INVOCATION_TIMEOUT s
      in (i, priv_invoke tr i s1))"

definition invoke_on_partition ::
  "transport \<Rightarrow> message \<Rightarrow> int \<Rightarrow> event_handler option \<Rightarrow> service \<Rightarrow> nat \<times> service" where
  "invoke_on_partition tr msg pid handler s =
     (let (i, s1) = new_invocation msg pid None None handler INVOCATION_TIMEOUT s
      in (i, priv_invoke tr i s1))"

definition invoke_on_random_target ::
  "transport \<Rightarrow> message \<Rightarrow> event_handler option \<Rightarrow> service \<Rightarrow> nat \<times> service" where
  "invoke_on_random_target tr msg handler s =
     (let (i, s1) = new_invocation msg (-1) None None handler INVOCATION_TIMEOUT s
      in (i, priv_invoke tr i s1))"

definition invoke_on_target ::
  "transport \<Rightarrow> message \<Rightarrow> address \<Rightarrow> event_handler option \<Rightarrow> service \<Rightarrow> nat \<times> service" where
  "invoke_on_target tr msg addr handler s =
     (let (i, s1) = new_invocation msg (-1) (Some addr) None handler INVOCATION_TIMEOUT s
      in (i, priv_invoke tr i s1))"

text \<open>
  \<^verbatim>\<open>try_retry\<close>: no retry for a bound connection (the clock is not read then) or past the
  deadline; otherwise the reactor is asked to call \<^verbatim>\<open>_invoke\<close> after the retry wait.
\<close>

definition try_retry :: "nat \<Rightarrow> service \<Rightarrow> bool \<times> service" where
  "try_retry i s =
     (if connection (invocations s i) \<noteq> None then (False, s)
      else
        (let (now, s1) = time_time s
         in if timeout (invocations s1 i) < now then (False, s1)
            else
              (let s2 = debug (Debug_rescheduling (request (invocations s1 i))
                                 RETRY_WAIT_TIME_IN_SECONDS) s1
               in (True, snd (add_timer RETRY_WAIT_TIME_IN_SECONDS (Invoke i) s2)))))"

definition is_transport_failure :: "exn \<Rightarrow> bool" where
  "is_transport_failure error =
     (case error of
        IOError _ \<Rightarrow> True
      | HazelcastInstanceNotActiveError _ \<Rightarrow> True
      | _ \<Rightarrow> False)"

text \<open>
  \<^verbatim>\<open>handle_exception\<close>. The two \<^verbatim>\<open>if\<close> statements follow each other: a transport failure
  whose retry is refused goes on to the catalog test, and \<^verbatim>\<open>try_retry\<close> may run twice.
\<close>

definition handle_exception :: "protocol \<Rightarrow> nat \<Rightarrow> exn \<Rightarrow> service \<Rightarrow> service" where
  "handle_exception P i error s =
     (let s0 = debug (Debug_exception (request (invocations s i)) error) s;
          (returned1, s1) =
             (if is_transport_failure error then try_retry i s0 else (False, s0))
      in if returned1 then s1
         else
           (let (returned2, s2) =
                  (if is_retryable_error P error \<and>
                      (m_retryable (request (invocations s1 i)) \<or> is_redo_operation s1)
                   then try_retry i s1 else (False, s1))
            in if returned2 then s2 else invocation_set_exception i error s2))"

text \<open>\<^verbatim>\<open>handle_client_message\<close>\<close>

definition handle_client_message :: "protocol \<Rightarrow> message \<Rightarrow> service \<Rightarrow> service" where
  "handle_client_message P msg s =
     (let correlation_id = m_correlation_id msg;
          s1 = debug (Debug_received msg) s
      in if m_listener_flag msg then
           (case map_of (listeners s1) correlation_id of
              None \<Rightarrow> warn (Warn_unknown_event msg) s1
            | Some i \<Rightarrow> handle_event i msg s1)
         else
           (case map_of (pending s1) correlation_id of
              None \<Rightarrow> warn (Warn_unknown msg) s1
            | Some i \<Rightarrow>
                (let s2 = s1\<lparr>pending := AList.delete correlation_id (pending s1)\<rparr>
                 in if m_message_type msg = EXCEPTION_MESSAGE_TYPE P
                    then handle_exception P i (create_exception P msg) s2
                    else invocation_set_response i msg s2)))"

text \<open>
  \<^verbatim>\<open>connection_closed\<close>: both loops run over a copy of the table taken before the loop.
\<close>

definition fail_if_bound :: "connection \<Rightarrow> int \<times> nat \<Rightarrow> service \<Rightarrow> service" where
  "fail_if_bound c entry s =
     (if connection (invocations s (snd entry)) = Some c
      then invocation_set_exception (snd entry) (IOError ''Connection to server was closed.'') s
      else s)"

definition drop_if_bound :: "connection \<Rightarrow> int \<times> nat \<Rightarrow> service \<Rightarrow> service" where
  "drop_if_bound c entry s =
     (if connection (invocations s (snd entry)) = Some c
      then s\<lparr>listeners := AList.delete (fst entry) (listeners s)\<rparr>
      else s)"

definition connection_closed :: "connection \<Rightarrow> service \<Rightarrow> service" where
  "connection_closed c s =
     (let s1 = fold (fail_if_bound c) (pending s) s
      in fold (drop_if_bound c) (listeners s1) s1)"

text \<open>The reactor running a callback it was given.\<close>

definition run_timer_callback :: "transport \<Rightarrow> timer_callback \<Rightarrow> service \<Rightarrow> service" where
  "run_timer_callback tr cb s =
     (case cb of On_timeout i \<Rightarrow> on_timeout i s | Invoke i \<Rightarrow> priv_invoke tr i s)"

subsection \<open>Notions used in the statements\<close>

text \<open>
  The service as the connection finds it when \<^verbatim>\<open>send_message\<close> is called: \<^verbatim>\<open>_send\<close> run
  with a transport that does nothing.
\<close>

definition registered :: "nat \<Rightarrow> connection \<Rightarrow> service \<Rightarrow> service" where
  "registered i c s = priv_send (\<lambda>_ _ st. st) i c s"

text \<open>The request of an invocation as \<^verbatim>\<open>_send\<close> stamps it in state \<open>s\<close>.\<close>

definition stamped :: "service \<Rightarrow> nat \<Rightarrow> message" where
  "stamped s i =
     (request (invocations s i))
       \<lparr>m_correlation_id := next_correlation_id s + 1,
        m_partition_id := partition_id (invocations s i)\<rparr>"

text \<open>The log lines of one event message delivered to handler \<open>h\<close>.\<close>

definition event_lines :: "event_handler \<Rightarrow> message \<Rightarrow> log_entry list" where
  "event_lines h msg =
     Debug_received msg # (case h msg of None \<Rightarrow> [] | Some _ \<Rightarrow> [Warn_event_error msg])"

text \<open>The future of invocation \<open>i\<close> carries the connection-closed error.\<close>

definition failed_closed :: "service \<Rightarrow> nat \<Rightarrow> bool" where
  "failed_closed s i =
     (f_exception (future (invocations s i)) = Some (IOError ''Connection to server was closed.'') \<and>
      f_event (future (invocations s i)))"

subsection \<open>Example states\<close>

text \<open>
  A client with two members and a clock standing at 1000; a listener invocation sent on
  connection 7; an invocation sent to the owner of partition 3, and the same with the clock
  past its deadline; an invocation that has a bound connection, a partition id and an
  address at once, not sent yet.
\<close>

definition example_service :: service where
  "example_service =
     new_service (\<lambda>_. ''member-a'') (\<lambda>_. ''member-b'')
       (\<lambda>a. if a = ''member-a'' then 1 else 2) (\<lambda>_. 1000)"

definition example_request :: message where
  "example_request =
     \<lparr>m_correlation_id = 0, m_partition_id = -1, m_listener_flag = False, m_message_type = 1,
      m_retryable = False, m_payload = ''map.put''\<rparr>"

definition example_protocol :: protocol where
  "example_protocol =
     \<lparr>EXCEPTION_MESSAGE_TYPE = 109,
      create_exception = (\<lambda>m. OtherError (m_payload m)),
      is_retryable_error = (\<lambda>x. x = OtherError ''retryable'')\<rparr>"

definition example_listener_sent :: service where
  "example_listener_sent =
     snd (invoke_on_connection wire_send example_request 7 (Some (\<lambda>_. None)) example_service)"

definition example_partition_sent :: service where
  "example_partition_sent =
     snd (invoke_on_partition wire_send example_request 3 None example_service)"

definition example_overdue :: service where
  "example_overdue = example_partition_sent\<lparr>clock := (\<lambda>_. 2000)\<rparr>"

definition example_bound :: service where
  "example_bound =
     snd (new_invocation example_request 5 (Some ''member-c'') (Some 7) None INVOCATION_TIMEOUT
            example_service)"

definition example_response :: message where
  "example_response =
     \<lparr>m_correlation_id = 2, m_partition_id = 3, m_listener_flag = False, m_message_type = 2,
      m_retryable = False, m_payload = ''ok''\<rparr>"

definition example_event :: message where
  "example_event =
     \<lparr>m_correlation_id = 2, m_partition_id = -1, m_listener_flag = True, m_message_type = 3,
      m_retryable = False, m_payload = ''entry added''\<rparr>"

section \<open>Properties\<close>

subsection \<open>Properties of futures\<close>

lemma f_event_set_result [simp]: "f_event (set_result r fut) = True"
  by (cases fut) simp

lemma f_event_set_exception [simp]: "f_event (set_exception x fut) = True"
  by (cases fut) simp

lemma f_result_set_result [simp]: "f_result (set_result r fut) = r"
  by (cases fut) simp

lemma f_result_set_exception [simp]: "f_result (set_exception x fut) = f_result fut"
  by (cases fut) simp

lemma f_exception_set_result [simp]: "f_exception (set_result r fut) = f_exception fut"
  by (cases fut) simp

lemma f_exception_set_exception [simp]: "f_exception (set_exception x fut) = Some x"
  by (cases fut) simp

lemma length_callbacks_set_result [simp]:
  "length (f_callbacks (set_result r fut)) = length (f_callbacks fut)"
  by (cases fut) simp

lemma length_callbacks_set_exception [simp]:
  "length (f_callbacks (set_exception x fut)) = length (f_callbacks fut)"
  by (cases fut) simp





subsection \<open>Continuations\<close>






subsection \<open>Connection teardown\<close>

lemma pending_invocation_set_exception [simp]:
  "pending (invocation_set_exception i x s) = pending s"
  by (simp add: invocation_set_exception_def update_future_def cancel_timer_def cancel_def
      split: option.splits)

lemma listeners_invocation_set_exception [simp]:
  "listeners (invocation_set_exception i x s) = listeners s"
  by (simp add: invocation_set_exception_def update_future_def cancel_timer_def cancel_def
      split: option.splits)

lemma invocations_invocation_set_exception:
  "invocations (invocation_set_exception i x s) =
     (invocations s)(i := (invocations s i)\<lparr>future := set_exception x (future (invocations s i))\<rparr>)"
  by (simp add: invocation_set_exception_def update_future_def cancel_timer_def cancel_def
      split: option.splits)

lemma connection_invocation_set_exception [simp]:
  "connection (invocations (invocation_set_exception i x s) j) = connection (invocations s j)"
  by (simp add: invocations_invocation_set_exception)

lemma pending_fail_if_bound [simp]: "pending (fail_if_bound c e s) = pending s"
  by (simp add: fail_if_bound_def)

lemma listeners_fail_if_bound [simp]: "listeners (fail_if_bound c e s) = listeners s"
  by (simp add: fail_if_bound_def)

lemma connection_fail_if_bound [simp]:
  "connection (invocations (fail_if_bound c e s) j) = connection (invocations s j)"
  by (simp add: fail_if_bound_def)

lemma pending_fold_fail [simp]: "pending (fold (fail_if_bound c) xs s) = pending s"
  by (induction xs arbitrary: s) simp_all

lemma listeners_fold_fail [simp]: "listeners (fold (fail_if_bound c) xs s) = listeners s"
  by (induction xs arbitrary: s) simp_all

lemma connection_fold_fail [simp]:
  "connection (invocations (fold (fail_if_bound c) xs s) j) = connection (invocations s j)"
  by (induction xs arbitrary: s) simp_all

lemma pending_drop_if_bound [simp]: "pending (drop_if_bound c e s) = pending s"
  by (simp add: drop_if_bound_def)

lemma invocations_drop_if_bound [simp]: "invocations (drop_if_bound c e s) = invocations s"
  by (simp add: drop_if_bound_def)

lemma pending_fold_drop [simp]: "pending (fold (drop_if_bound c) xs s) = pending s"
  by (induction xs arbitrary: s) simp_all

lemma invocations_fold_drop [simp]: "invocations (fold (drop_if_bound c) xs s) = invocations s"
  by (induction xs arbitrary: s) simp_all

lemma pending_connection_closed: "pending (connection_closed c s) = pending s"
  by (simp add: connection_closed_def Let_def)

lemma invocations_connection_closed:
  "invocations (connection_closed c s) = invocations (fold (fail_if_bound c) (pending s) s)"
  by (simp add: connection_closed_def Let_def)

lemma failed_closed_fail_if_bound:
  "failed_closed s i \<Longrightarrow> failed_closed (fail_if_bound c e s) i"
  by (simp add: failed_closed_def fail_if_bound_def invocations_invocation_set_exception)

lemma failed_closed_fold:
  "failed_closed s i \<Longrightarrow> failed_closed (fold (fail_if_bound c) xs s) i"
  by (induction xs arbitrary: s) (simp_all add: failed_closed_fail_if_bound)

lemma fail_if_bound_fails:
  "connection (invocations s i) = Some c \<Longrightarrow> failed_closed (fail_if_bound c (k, i) s) i"
  by (simp add: failed_closed_def fail_if_bound_def invocations_invocation_set_exception)

lemma fold_fail_fails:
  "(k, i) \<in> set xs \<Longrightarrow> connection (invocations s i) = Some c \<Longrightarrow>
   failed_closed (fold (fail_if_bound c) xs s) i"
proof (induction xs arbitrary: s)
  case Nil
  then show ?case by simp
next
  case (Cons x xs)
  show ?case
  proof (cases "x = (k, i)")
    case True
    have "failed_closed (fail_if_bound c (k, i) s) i"
      using Cons.prems(2) by (rule fail_if_bound_fails)
    then show ?thesis
      using True by (simp add: failed_closed_fold)
  next
    case False
    with Cons.prems have "(k, i) \<in> set xs" by simp
    moreover have "connection (invocations (fail_if_bound c x s) i) = Some c"
      using Cons.prems(2) by simp
    ultimately show ?thesis
      using Cons.IH [of "fail_if_bound c x s"] by simp
  qed
qed

lemma fold_fail_untouched:
  "i \<notin> snd ` set xs \<Longrightarrow> invocations (fold (fail_if_bound c) xs s) i = invocations s i"
proof (induction xs arbitrary: s)
  case Nil
  then show ?case by simp
next
  case (Cons x xs)
  then have "i \<noteq> snd x" and "i \<notin> snd ` set xs" by auto
  then show ?case
    using Cons.IH [of "fail_if_bound c x s"]
    by (simp add: fail_if_bound_def invocations_invocation_set_exception)
qed



lemma listeners_drop_if_bound:
  "listeners (drop_if_bound c e s) =
     (if connection (invocations s (snd e)) = Some c
      then AList.delete (fst e) (listeners s) else listeners s)"
  by (simp add: drop_if_bound_def)

lemma fold_drop_keeps_None:
  "map_of (listeners s) k = None \<Longrightarrow> map_of (listeners (fold (drop_if_bound c) xs s)) k = None"
proof (induction xs arbitrary: s)
  case Nil
  then show ?case by simp
next
  case (Cons x xs)
  have "map_of (listeners (drop_if_bound c x s)) k = None"
    using Cons.prems by (simp add: listeners_drop_if_bound delete_conv)
  then show ?case
    using Cons.IH by simp
qed

lemma fold_drop_removes:
  "(k, i) \<in> set xs \<Longrightarrow> connection (invocations s i) = Some c \<Longrightarrow>
   map_of (listeners (fold (drop_if_bound c) xs s)) k = None"
proof (induction xs arbitrary: s)
  case Nil
  then show ?case by simp
next
  case (Cons x xs)
  show ?case
  proof (cases "x = (k, i)")
    case True
    have "map_of (listeners (drop_if_bound c x s)) k = None"
      using True Cons.prems(2) by (simp add: listeners_drop_if_bound delete_conv)
    then show ?thesis
      by (simp add: fold_drop_keeps_None)
  next
    case False
    with Cons.prems have "(k, i) \<in> set xs" by simp
    then show ?thesis
      using Cons.IH [of "drop_if_bound c x s"] Cons.prems(2) by simp
  qed
qed

lemma fold_drop_keeps_others:
  "\<forall>j. (k, j) \<in> set xs \<longrightarrow> connection (invocations s j) \<noteq> Some c \<Longrightarrow>
   map_of (listeners (fold (drop_if_bound c) xs s)) k = map_of (listeners s) k"
proof (induction xs arbitrary: s)
  case Nil
  then show ?case by simp
next
  case (Cons x xs)
  have keep: "map_of (listeners (drop_if_bound c x s)) k = map_of (listeners s) k"
  proof (cases "fst x = k")
    case True
    then have "(k, snd x) \<in> set (x # xs)" by (cases x) simp
    with Cons.prems have "connection (invocations s (snd x)) \<noteq> Some c" by blast
    then show ?thesis by (simp add: listeners_drop_if_bound)
  next
    case False
    then show ?thesis by (simp add: listeners_drop_if_bound delete_conv)
  qed
  have "\<forall>j. (k, j) \<in> set xs \<longrightarrow> connection (invocations (drop_if_bound c x s) j) \<noteq> Some c"
    using Cons.prems by simp
  then show ?case
    using Cons.IH [of "drop_if_bound c x s"] keep by simp
qed

lemma listeners_connection_closed:
  "listeners (connection_closed c s) =
     listeners (fold (drop_if_bound c) (listeners s) (fold (fail_if_bound c) (pending s) s))"
  by (simp add: connection_closed_def Let_def)

lemma timers_invocation_set_exception [simp]:
  "timers (invocation_set_exception i x s) = timers s"
  by (simp add: invocation_set_exception_def update_future_def cancel_timer_def cancel_def
      split: option.splits)

lemma timers_fold_fail [simp]: "timers (fold (fail_if_bound c) xs s) = timers s"
  by (induction xs arbitrary: s) (simp_all add: fail_if_bound_def)

lemma timers_fold_drop [simp]: "timers (fold (drop_if_bound c) xs s) = timers s"
  by (induction xs arbitrary: s) (simp_all add: drop_if_bound_def)

lemma failed_closed_result:
  "failed_closed s i \<Longrightarrow>
   result (future (invocations s i)) = Raises (IOError ''Connection to server was closed.'')"
  by (simp add: failed_closed_def result_def)

subsection \<open>Retrying\<close>

lemma try_retry_bound:
  "connection (invocations s i) \<noteq> None \<Longrightarrow> try_retry i s = (False, s)"
  by (simp add: try_retry_def)

lemma try_retry_late:
  "connection (invocations s i) = None \<Longrightarrow> timeout (invocations s i) < clock s (ticks s) \<Longrightarrow>
   try_retry i s = (False, s\<lparr>ticks := Suc (ticks s)\<rparr>)"
  by (simp add: try_retry_def time_time_def)

lemma try_retry_granted:
  "connection (invocations s i) = None \<Longrightarrow> \<not> timeout (invocations s i) < clock s (ticks s) \<Longrightarrow>
   try_retry i s =
     (True, s\<lparr>ticks := Suc (ticks s),
              logged := logged s @ [Debug_rescheduling (request (invocations s i)) 1],
              timers := timers s @ [Relative 1 (Invoke i)]\<rparr>)"
  by (simp add: try_retry_def time_time_def debug_def add_timer_def
      RETRY_WAIT_TIME_IN_SECONDS_def)

lemma fst_try_retry:
  "fst (try_retry i s) =
     (connection (invocations s i) = None \<and> \<not> timeout (invocations s i) < clock s (ticks s))"
  by (cases "connection (invocations s i) = None"; cases "timeout (invocations s i) < clock s (ticks s)")
     (simp_all add: try_retry_bound try_retry_late try_retry_granted)

lemma try_retry_frame:
  "pending (snd (try_retry i s)) = pending s \<and>
   listeners (snd (try_retry i s)) = listeners s \<and>
   invocations (snd (try_retry i s)) = invocations s \<and>
   is_redo_operation (snd (try_retry i s)) = is_redo_operation s \<and>
   clock (snd (try_retry i s)) = clock s"
  by (cases "connection (invocations s i) = None"; cases "timeout (invocations s i) < clock s (ticks s)")
     (simp_all add: try_retry_bound try_retry_late try_retry_granted)

lemma try_retry_timers:
  "timers (snd (try_retry i s)) =
     (if fst (try_retry i s) then timers s @ [Relative 1 (Invoke i)] else timers s)"
  by (cases "connection (invocations s i) = None"; cases "timeout (invocations s i) < clock s (ticks s)")
     (simp_all add: try_retry_bound try_retry_late try_retry_granted)

lemma try_retry_ticks:
  "ticks (snd (try_retry i s)) =
     (if connection (invocations s i) = None then Suc (ticks s) else ticks s)"
  by (cases "connection (invocations s i) = None"; cases "timeout (invocations s i) < clock s (ticks s)")
     (simp_all add: try_retry_bound try_retry_late try_retry_granted)

lemma debug_frame [simp]:
  "invocations (debug e s) = invocations s"
  "clock (debug e s) = clock s"
  "ticks (debug e s) = ticks s"
  "timers (debug e s) = timers s"
  "pending (debug e s) = pending s"
  "listeners (debug e s) = listeners s"
  "is_redo_operation (debug e s) = is_redo_operation s"
  by (simp_all add: debug_def)

lemma invocation_set_exception_frame [simp]:
  "ticks (invocation_set_exception i x s) = ticks s"
  "clock (invocation_set_exception i x s) = clock s"
  by (simp_all add: invocation_set_exception_def update_future_def cancel_timer_def cancel_def
      split: option.splits)

lemma future_invocation_set_exception [simp]:
  "future (invocations (invocation_set_exception i x s) i) =
     set_exception x (future (invocations s i))"
  by (simp add: invocations_invocation_set_exception)

lemma result_set_exception [simp]: "result (set_exception x fut) = Raises x"
  by (simp add: result_def)

subsection \<open>Sending\<close>

lemma priv_send_registered:
  "priv_send tr i c s = tr c (request (invocations (registered i c s) i)) (registered i c s)"
  by (auto simp add: registered_def priv_send_def Let_def debug_def add_timer_absolute_def
      split: option.splits)

lemma registered_pending:
  "pending (registered i c s) = AList.update (next_correlation_id s + 1) i (pending s)"
  by (auto simp add: registered_def priv_send_def Let_def debug_def add_timer_absolute_def
      split: option.splits)

lemma registered_listeners:
  "listeners (registered i c s) =
     (if event_handler (invocations s i) \<noteq> None
      then AList.update (next_correlation_id s + 1) i (listeners s) else listeners s)"
  by (auto simp add: registered_def priv_send_def Let_def debug_def add_timer_absolute_def
      has_event_handler_def split: option.splits)

lemma registered_request:
  "request (invocations (registered i c s) i) =
     (request (invocations s i))
       \<lparr>m_correlation_id := next_correlation_id s + 1,
        m_partition_id := partition_id (invocations s i)\<rparr>"
  by (auto simp add: registered_def priv_send_def Let_def debug_def add_timer_absolute_def
      split: option.splits)

lemma registered_timers:
  "timers (registered i c s) =
     (case timer (invocations s i) of
        Some _ \<Rightarrow> timers s
      | None \<Rightarrow> timers s @ [Absolute (timeout (invocations s i)) (On_timeout i)])"
  by (auto simp add: registered_def priv_send_def Let_def debug_def add_timer_absolute_def
      split: option.splits)

lemma registered_timer:
  "timer (invocations (registered i c s) i) =
     (case timer (invocations s i) of
        Some h \<Rightarrow> Some h
      | None \<Rightarrow> Some (length (timers s)))"
  by (auto simp add: registered_def priv_send_def Let_def debug_def add_timer_absolute_def
      split: option.splits)

lemma registered_frame:
  "timeout (invocations (registered i c s) i) = timeout (invocations s i)"
  "wire (registered i c s) = wire s"
  "cancelled (registered i c s) = cancelled s"
  "future (invocations (registered i c s) i) = future (invocations s i)"
  by (simp_all add: registered_def priv_send_def Let_def debug_def add_timer_absolute_def
      split: option.splits)

lemma pending_priv_send:
  "pending (priv_send wire_send i c s) =
     AList.update (next_correlation_id s + 1) i (pending s)"
  by (simp add: priv_send_registered [of wire_send] wire_send_def registered_pending)

lemma pending_priv_invoke:
  "pending (priv_invoke wire_send i s) =
     AList.update (next_correlation_id s + 1) i (pending s)"
  by (simp add: priv_invoke_def priv_send_to_address_def pending_priv_send
      has_connection_def has_partition_id_def has_address_def next_address_def Let_def
      split: option.splits)

lemma wire_priv_send:
  "wire (priv_send wire_send i c s) =
     wire s @ [(c, (request (invocations s i))
                     \<lparr>m_correlation_id := next_correlation_id s + 1,
                      m_partition_id := partition_id (invocations s i)\<rparr>)]"
  by (simp add: priv_send_registered [of wire_send] wire_send_def registered_request
      registered_frame)

subsection \<open>Receiving\<close>

lemma pending_handle_exception [simp]: "pending (handle_exception P i error s) = pending s"
  by (simp add: handle_exception_def Let_def split_beta try_retry_frame)

lemma pending_invocation_set_response [simp]:
  "pending (invocation_set_response i m s) = pending s"
  by (simp add: invocation_set_response_def update_future_def cancel_timer_def cancel_def
      split: option.splits)

lemma handle_client_message_unknown:
  "\<not> m_listener_flag msg \<Longrightarrow> map_of (pending s) (m_correlation_id msg) = None \<Longrightarrow>
   handle_client_message P msg s = s\<lparr>logged := logged s @ [Debug_received msg, Warn_unknown msg]\<rparr>"
  by (simp add: handle_client_message_def Let_def debug_def warn_def)

lemma handle_client_message_unknown_event:
  "m_listener_flag msg \<Longrightarrow> map_of (listeners s) (m_correlation_id msg) = None \<Longrightarrow>
   handle_client_message P msg s =
     s\<lparr>logged := logged s @ [Debug_received msg, Warn_unknown_event msg]\<rparr>"
  by (simp add: handle_client_message_def Let_def debug_def warn_def)

lemma handle_client_message_pops:
  "\<not> m_listener_flag msg \<Longrightarrow>
   map_of (pending (handle_client_message P msg s)) (m_correlation_id msg) = None"
  by (simp add: handle_client_message_def Let_def debug_def warn_def delete_conv
      split: option.splits)

lemma handle_client_message_response:
  "\<not> m_listener_flag msg \<Longrightarrow> map_of (pending s) (m_correlation_id msg) = Some i \<Longrightarrow>
   m_message_type msg \<noteq> EXCEPTION_MESSAGE_TYPE P \<Longrightarrow>
   future (invocations (handle_client_message P msg s) i) =
     set_result (Some msg) (future (invocations s i))"
  by (simp add: handle_client_message_def Let_def debug_def warn_def
      invocation_set_response_def update_future_def cancel_timer_def cancel_def
      split: option.splits)

lemma handle_client_message_event:
  "m_listener_flag msg \<Longrightarrow> map_of (listeners s) (m_correlation_id msg) = Some i \<Longrightarrow>
   event_handler (invocations s i) = Some h \<Longrightarrow>
   handle_client_message P msg s =
     s\<lparr>handled := handled s @ [(i, msg)], logged := logged s @ event_lines h msg\<rparr>"
  by (simp add: handle_client_message_def Let_def debug_def warn_def handle_event_def
      event_lines_def split: option.splits)

lemma events_fold:
  "\<forall>m \<in> set ms. m_listener_flag m \<and> m_correlation_id m = k \<Longrightarrow>
   map_of (listeners s) k = Some i \<Longrightarrow> event_handler (invocations s i) = Some h \<Longrightarrow>
   fold (handle_client_message P) ms s =
     s\<lparr>handled := handled s @ map (Pair i) ms,
       logged := logged s @ concat (map (event_lines h) ms)\<rparr>"
proof (induction ms arbitrary: s)
  case Nil
  show ?case by simp
next
  case (Cons m ms)
  let ?s1 = "s\<lparr>handled := handled s @ [(i, m)], logged := logged s @ event_lines h m\<rparr>"
  have step: "handle_client_message P m s = ?s1"
    using Cons.prems by (simp add: handle_client_message_event)
  have "fold (handle_client_message P) ms ?s1 =
      ?s1\<lparr>handled := handled ?s1 @ map (Pair i) ms,
           logged := logged ?s1 @ concat (map (event_lines h) ms)\<rparr>"
    using Cons.prems by (intro Cons.IH) simp_all
  then show ?case
    by (simp add: step)
qed

subsection \<open>The example states\<close>

lemmas example_defs =
  example_service_def example_request_def new_service_def time_time_def next_address_def
  add_timer_absolute_def wire_send_def debug_def new_invocation_def priv_send_def
  priv_send_to_address_def priv_invoke_def invoke_on_connection_def invoke_on_partition_def
  has_connection_def has_event_handler_def has_partition_id_def has_address_def
  INVOCATION_TIMEOUT_def new_future_def Let_def

lemma example_listener_sent_fields:
  "pending example_listener_sent = [(2, 0)]"
  "listeners example_listener_sent = [(2, 0)]"
  "connection (invocations example_listener_sent 0) = Some 7"
  "event_handler (invocations example_listener_sent 0) = Some (\<lambda>_. None)"
  "future (invocations example_listener_sent 0) = Future None None False []"
  "handled example_listener_sent = []"
  by (simp_all add: example_listener_sent_def example_defs)

lemma example_partition_sent_fields:
  "pending example_partition_sent = [(2, 0)]"
  "connection (invocations example_partition_sent 0) = None"
  "timeout (invocations example_partition_sent 0) = 1120"
  "request (invocations example_partition_sent 0) =
     example_request\<lparr>m_correlation_id := 2, m_partition_id := 3\<rparr>"
  "future (invocations example_partition_sent 0) = Future None None False []"
  "timers example_partition_sent = [Absolute 1120 (On_timeout 0)]"
  "clock example_partition_sent = (\<lambda>_. 1000)"
  "is_redo_operation example_partition_sent = False"
  "wire example_partition_sent = [(1, example_request\<lparr>m_correlation_id := 2, m_partition_id := 3\<rparr>)]"
  by (simp_all add: example_partition_sent_def example_defs)

lemma example_bound_fields:
  "connection (invocations example_bound 0) = Some 7"
  "partition_id (invocations example_bound 0) = 5"
  "address (invocations example_bound 0) = Some ''member-c''"
  "wire example_bound = []"
  "timer (invocations example_bound 0) = None"
  "event_handler (invocations example_bound 0) = None"
  "next_correlation_id example_bound = 1"
  "pending example_bound = []"
  by (simp_all add: example_bound_def example_defs)

lemma example_overdue_fields:
  "connection (invocations example_overdue 0) = None"
  "timeout (invocations example_overdue 0) = 1120"
  "clock example_overdue = (\<lambda>_. 2000)"
  "timers example_overdue = [Absolute 1120 (On_timeout 0)]"
  "future (invocations example_overdue 0) = Future None None False []"
  "is_redo_operation example_overdue = False"
  "request (invocations example_overdue 0) =
     example_request\<lparr>m_correlation_id := 2, m_partition_id := 3\<rparr>"
  by (simp_all add: example_overdue_def example_partition_sent_fields)

section \<open>The claims about the service\<close>

text \<open>
C2 (as stated, refuted). The claim says that a transport failure past the deadline
resolves the future as a timeout error. \<^verbatim>\<open>handle_exception\<close> falls through to
\<^verbatim>\<open>invocation.set_exception(error)\<close> with the error it was given: with the deadline at 1120
and the clock at 2000, the future of an unbound invocation that failed with
\<^verbatim>\<open>IOError\<close> raises that \<^verbatim>\<open>IOError\<close>; no \<^verbatim>\<open>TimeoutError\<close> is made on this path.
\<close>

theorem C2_late_failure_is_timeout_counterexample:
  "connection (invocations example_overdue 0) = None \<and>
   timeout (invocations example_overdue 0) = 1120 \<and>
   clock example_overdue (ticks example_overdue) = 2000 \<and>
   result (future (invocations
      (handle_exception example_protocol 0 (IOError ''reset'') example_overdue) 0)) =
     Raises (IOError ''reset'')"
  by (simp add: example_overdue_fields handle_exception_def try_retry_def time_time_def
      is_transport_failure_def example_protocol_def Let_def result_def)

text \<open>
C2 (amended). \<^verbatim>\<open>try_retry\<close> refuses exactly when the invocation is bound to a
connection or its deadline is before the clock reading (\<^verbatim>\<open>timeout < time.time()\<close>). A
transport failure on an unbound invocation whose deadline has not passed is retried: the
reactor is asked to call \<^verbatim>\<open>_invoke\<close> after the retry wait and the invocation is left as it
is. With the deadline passed (at both clock readings the function may take) nothing is
scheduled and the future is resolved with the transport error itself.
\<close>

theorem C2_retry_eligibility:
  "fst (try_retry i s) =
     (\<not> (connection (invocations s i) \<noteq> None \<or> timeout (invocations s i) < clock s (ticks s))) \<and>
   (is_transport_failure error \<and> connection (invocations s i) = None \<and>
    \<not> timeout (invocations s i) < clock s (ticks s) \<longrightarrow>
      timers (handle_exception P i error s) = timers s @ [Relative 1 (Invoke i)] \<and>
      invocations (handle_exception P i error s) = invocations s) \<and>
   (is_transport_failure error \<and>
    timeout (invocations s i) < clock s (ticks s) \<and>
    timeout (invocations s i) < clock s (Suc (ticks s)) \<longrightarrow>
      timers (handle_exception P i error s) = timers s \<and>
      result (future (invocations (handle_exception P i error s) i)) = Raises error)"
proof (intro conjI impI)
  show "fst (try_retry i s) =
     (\<not> (connection (invocations s i) \<noteq> None \<or> timeout (invocations s i) < clock s (ticks s)))"
    by (simp add: fst_try_retry)
next
  let ?s0 = "debug (Debug_exception (request (invocations s i)) error) s"
  assume a: "is_transport_failure error \<and> connection (invocations s i) = None \<and>
    \<not> timeout (invocations s i) < clock s (ticks s)"
  then have "fst (try_retry i ?s0)"
    by (simp add: fst_try_retry)
  with a have unfold: "handle_exception P i error s = snd (try_retry i ?s0)"
    by (simp add: handle_exception_def Let_def split_beta)
  show "timers (handle_exception P i error s) = timers s @ [Relative 1 (Invoke i)]"
    unfolding unfold using \<open>fst (try_retry i ?s0)\<close> by (simp add: try_retry_timers)
  show "invocations (handle_exception P i error s) = invocations s"
    unfolding unfold by (simp add: try_retry_frame)
next
  let ?s0 = "debug (Debug_exception (request (invocations s i)) error) s"
  let ?s1 = "snd (try_retry i ?s0)"
  assume a: "is_transport_failure error \<and>
    timeout (invocations s i) < clock s (ticks s) \<and>
    timeout (invocations s i) < clock s (Suc (ticks s))"
  have r1: "\<not> fst (try_retry i ?s0)"
    using a by (simp add: fst_try_retry)
  have r2: "\<not> fst (try_retry i ?s1)"
    using a by (simp add: fst_try_retry try_retry_frame try_retry_ticks)
  have unfold: "handle_exception P i error s =
      invocation_set_exception i error
        (if is_retryable_error P error \<and>
            (m_retryable (request (invocations s i)) \<or> is_redo_operation s)
         then snd (try_retry i ?s1) else ?s1)"
    using a r1 r2 by (auto simp add: handle_exception_def Let_def split_beta try_retry_frame)
  show "timers (handle_exception P i error s) = timers s"
    unfolding unfold using r1 r2 by (simp add: try_retry_timers)
  show "result (future (invocations (handle_exception P i error s) i)) = Raises error"
    unfolding unfold by simp
qed

theorem C2_retry_eligibility_witness:
  "timers (handle_exception example_protocol 0 (IOError ''reset'') example_partition_sent) =
     [Absolute 1120 (On_timeout 0), Relative 1 (Invoke 0)]"
  using C2_retry_eligibility [of 0 example_partition_sent "IOError ''reset''" example_protocol]
  by (simp add: example_partition_sent_fields is_transport_failure_def)

text \<open>
C3. Routing in \<^verbatim>\<open>_invoke\<close>: a bound connection receives the message whatever the
partition id and the address are; otherwise a partition id \<open>\<ge> 0\<close> selects the connection
to the partition owner; otherwise an explicit address selects the connection to it;
otherwise the load balancer's next address does. A retry is the reactor calling the same
\<^verbatim>\<open>_invoke\<close>.
\<close>

theorem C3_routing_priority:
  "(connection (invocations s i) = Some c \<longrightarrow>
      wire (priv_invoke wire_send i s) = wire s @ [(c, stamped s i)]) \<and>
   (connection (invocations s i) = None \<and> 0 \<le> partition_id (invocations s i) \<longrightarrow>
      wire (priv_invoke wire_send i s) =
        wire s @ [(connect s (partition_owner s (partition_id (invocations s i))), stamped s i)]) \<and>
   (connection (invocations s i) = None \<and> partition_id (invocations s i) < 0 \<and>
    address (invocations s i) = Some a \<longrightarrow>
      wire (priv_invoke wire_send i s) = wire s @ [(connect s a, stamped s i)]) \<and>
   (connection (invocations s i) = None \<and> partition_id (invocations s i) < 0 \<and>
    address (invocations s i) = None \<longrightarrow>
      wire (priv_invoke wire_send i s) =
        wire s @ [(connect s (lb_addresses s (lb_calls s)), stamped s i)]) \<and>
   run_timer_callback wire_send (Invoke i) s = priv_invoke wire_send i s"
  by (simp add: priv_invoke_def priv_send_to_address_def wire_priv_send stamped_def
      has_connection_def has_partition_id_def has_address_def next_address_def
      run_timer_callback_def Let_def)

theorem C3_routing_priority_witness:
  "wire (priv_invoke wire_send 0 example_bound) =
     [(7, example_request\<lparr>m_correlation_id := 2, m_partition_id := 5\<rparr>)]"
proof -
  have msg: "stamped example_bound 0 = example_request\<lparr>m_correlation_id := 2, m_partition_id := 5\<rparr>"
    by (simp add: stamped_def example_bound_fields example_bound_def example_defs)
  show ?thesis
    using C3_routing_priority [of example_bound 0 7] by (simp add: example_bound_fields msg)
qed

text \<open>
C5. For an error the catalog marks retryable that is not a transport or
instance-not-active failure, \<^verbatim>\<open>handle_exception\<close> schedules a retry exactly when the
request is marked retryable or redo is on, and \<^verbatim>\<open>try_retry\<close> grants it (no bound
connection, deadline not passed); the invocation is then left as it is. In every other
case nothing is scheduled and the future is resolved with that error.
\<close>

theorem C5_retryable_error_policy:
  assumes "is_retryable_error P error" and "\<not> is_transport_failure error"
  shows
  "((m_retryable (request (invocations s i)) \<or> is_redo_operation s) \<and>
    connection (invocations s i) = None \<and>
    \<not> timeout (invocations s i) < clock s (ticks s) \<longrightarrow>
      timers (handle_exception P i error s) = timers s @ [Relative 1 (Invoke i)] \<and>
      invocations (handle_exception P i error s) = invocations s) \<and>
   (\<not> ((m_retryable (request (invocations s i)) \<or> is_redo_operation s) \<and>
       connection (invocations s i) = None \<and>
       \<not> timeout (invocations s i) < clock s (ticks s)) \<longrightarrow>
      timers (handle_exception P i error s) = timers s \<and>
      result (future (invocations (handle_exception P i error s) i)) = Raises error)"
proof -
  let ?s0 = "debug (Debug_exception (request (invocations s i)) error) s"
  let ?wanted = "m_retryable (request (invocations s i)) \<or> is_redo_operation s"
  have unfold: "handle_exception P i error s =
      (if ?wanted
       then (if fst (try_retry i ?s0) then snd (try_retry i ?s0)
             else invocation_set_exception i error (snd (try_retry i ?s0)))
       else invocation_set_exception i error ?s0)"
    using assms by (simp add: handle_exception_def Let_def split_beta)
  have granted: "fst (try_retry i ?s0) =
      (connection (invocations s i) = None \<and> \<not> timeout (invocations s i) < clock s (ticks s))"
    by (simp add: fst_try_retry)
  show ?thesis
    unfolding unfold
    by (simp add: granted try_retry_timers try_retry_frame)
qed

theorem C5_retryable_error_policy_witness:
  "result (future (invocations
      (handle_exception example_protocol 0 (OtherError ''retryable'') example_partition_sent) 0)) =
     Raises (OtherError ''retryable'')"
  using C5_retryable_error_policy [of example_protocol "OtherError ''retryable''" example_partition_sent 0]
  by (simp add: example_partition_sent_fields is_transport_failure_def example_protocol_def
      example_request_def)

text \<open>
C6. A message without the listener flag whose correlation id is not pending, and a
message with the listener flag whose correlation id has no listener, only add their two
log lines: no table, invocation, future or timer changes. A response with a normal payload
resolves the future of the pending invocation with the message. After any message without
the listener flag, a second such message with the same correlation id is dropped in that
way.
\<close>

theorem C6_unknown_correlation_id_dropped:
  "(\<not> m_listener_flag msg \<and> map_of (pending s) (m_correlation_id msg) = None \<longrightarrow>
      handle_client_message P msg s =
        s\<lparr>logged := logged s @ [Debug_received msg, Warn_unknown msg]\<rparr>) \<and>
   (m_listener_flag msg \<and> map_of (listeners s) (m_correlation_id msg) = None \<longrightarrow>
      handle_client_message P msg s =
        s\<lparr>logged := logged s @ [Debug_received msg, Warn_unknown_event msg]\<rparr>) \<and>
   (\<not> m_listener_flag msg \<and> map_of (pending s) (m_correlation_id msg) = Some i \<and>
    m_message_type msg \<noteq> EXCEPTION_MESSAGE_TYPE P \<longrightarrow>
      future (invocations (handle_client_message P msg s) i) =
        set_result (Some msg) (future (invocations s i))) \<and>
   (\<not> m_listener_flag msg \<and> \<not> m_listener_flag msg' \<and>
    m_correlation_id msg' = m_correlation_id msg \<longrightarrow>
      handle_client_message P msg' (handle_client_message P msg s) =
        (handle_client_message P msg s)
          \<lparr>logged := logged (handle_client_message P msg s) @
                      [Debug_received msg', Warn_unknown msg']\<rparr>)"
proof (intro conjI impI)
  assume "\<not> m_listener_flag msg \<and> map_of (pending s) (m_correlation_id msg) = None"
  then show "handle_client_message P msg s =
        s\<lparr>logged := logged s @ [Debug_received msg, Warn_unknown msg]\<rparr>"
    by (simp add: handle_client_message_unknown)
next
  assume "m_listener_flag msg \<and> map_of (listeners s) (m_correlation_id msg) = None"
  then show "handle_client_message P msg s =
        s\<lparr>logged := logged s @ [Debug_received msg, Warn_unknown_event msg]\<rparr>"
    by (simp add: handle_client_message_unknown_event)
next
  assume "\<not> m_listener_flag msg \<and> map_of (pending s) (m_correlation_id msg) = Some i \<and>
    m_message_type msg \<noteq> EXCEPTION_MESSAGE_TYPE P"
  then show "future (invocations (handle_client_message P msg s) i) =
        set_result (Some msg) (future (invocations s i))"
    by (simp add: handle_client_message_response)
next
  assume a: "\<not> m_listener_flag msg \<and> \<not> m_listener_flag msg' \<and>
    m_correlation_id msg' = m_correlation_id msg"
  have "map_of (pending (handle_client_message P msg s)) (m_correlation_id msg') = None"
    using a handle_client_message_pops [of msg P s] by simp
  with a show "handle_client_message P msg' (handle_client_message P msg s) =
        (handle_client_message P msg s)
          \<lparr>logged := logged (handle_client_message P msg s) @
                      [Debug_received msg', Warn_unknown msg']\<rparr>"
    by (simp add: handle_client_message_unknown)
qed

theorem C6_unknown_correlation_id_dropped_witness:
  "result (future (invocations
      (handle_client_message example_protocol example_response example_partition_sent) 0)) =
     Returns (Some example_response) \<and>
   handle_client_message example_protocol example_response
     (handle_client_message example_protocol example_response example_partition_sent) =
     (handle_client_message example_protocol example_response example_partition_sent)
       \<lparr>logged :=
          logged (handle_client_message example_protocol example_response example_partition_sent) @
          [Debug_received example_response, Warn_unknown example_response]\<rparr>"
  using C6_unknown_correlation_id_dropped
    [where msg = example_response and s = example_partition_sent and P = example_protocol
       and i = 0 and msg' = example_response]
  by (simp add: example_partition_sent_fields example_response_def example_protocol_def
      result_def)

text \<open>
C7. \<^verbatim>\<open>_send\<close> hands the stamped request to the connection in the state \<open>registered\<close>,
whatever the connection then does with the service. In that state the new correlation id
maps to the invocation in the pending table, and in the listeners table if there is an
event handler (which is otherwise unchanged). A deadline timer for the invocation's own
absolute deadline is scheduled only if the invocation has none; a further send of the same
invocation schedules no timer.
\<close>

theorem C7_registered_before_send:
  "priv_send tr i c s = tr c (request (invocations (registered i c s) i)) (registered i c s) \<and>
   m_correlation_id (request (invocations (registered i c s) i)) = next_correlation_id s + 1 \<and>
   map_of (pending (registered i c s)) (next_correlation_id s + 1) = Some i \<and>
   (has_event_handler (invocations s i) \<longrightarrow>
      map_of (listeners (registered i c s)) (next_correlation_id s + 1) = Some i) \<and>
   (\<not> has_event_handler (invocations s i) \<longrightarrow> listeners (registered i c s) = listeners s) \<and>
   (timer (invocations s i) = None \<longrightarrow>
      timers (registered i c s) = timers s @ [Absolute (timeout (invocations s i)) (On_timeout i)] \<and>
      timer (invocations (registered i c s) i) = Some (length (timers s))) \<and>
   (timer (invocations s i) \<noteq> None \<longrightarrow>
      timers (registered i c s) = timers s \<and>
      timer (invocations (registered i c s) i) = timer (invocations s i)) \<and>
   timers (registered i c' (registered i c s)) = timers (registered i c s)"
proof -
  have again: "timer (invocations (registered i c s) i) \<noteq> None"
    by (simp add: registered_timer split: option.splits)
  have twice: "timers (registered i c' (registered i c s)) = timers (registered i c s)"
    using again by (simp add: registered_timers [of i c' "registered i c s"] split: option.splits)
  show ?thesis
    using twice
    by (auto simp add: priv_send_registered [of tr] registered_pending registered_listeners
        registered_request registered_timers registered_timer has_event_handler_def
        update_conv split: option.splits)
qed

theorem C7_registered_before_send_witness:
  "map_of (pending (registered 0 7 example_bound)) 2 = Some 0 \<and>
   timers (registered 0 7 example_bound) = [Absolute 1120 (On_timeout 0)] \<and>
   priv_send wire_send 0 7 example_bound =
     wire_send 7 (request (invocations (registered 0 7 example_bound) 0))
       (registered 0 7 example_bound)"
proof -
  have "timers example_bound = []" and "timeout (invocations example_bound 0) = 1120"
    by (simp_all add: example_bound_def example_defs)
  then show ?thesis
    using C7_registered_before_send [of wire_send 0 7 example_bound] by (simp add: example_bound_fields)
qed

text \<open>
C8. For an invocation with an event handler registered in the listeners table under
\<open>k\<close>, any sequence of event messages with correlation id \<open>k\<close> calls the handler once per
message, in order, and changes neither the listeners table, the pending table nor any
invocation (no future is resolved); a handler that raises adds a warning line.
\<close>

theorem C8_listener_stays_registered:
  "(\<forall>m \<in> set ms. m_listener_flag m \<and> m_correlation_id m = k) \<and>
   map_of (listeners s) k = Some i \<and> event_handler (invocations s i) = Some h \<longrightarrow>
     handled (fold (handle_client_message P) ms s) = handled s @ map (Pair i) ms \<and>
     listeners (fold (handle_client_message P) ms s) = listeners s \<and>
     pending (fold (handle_client_message P) ms s) = pending s \<and>
     invocations (fold (handle_client_message P) ms s) = invocations s \<and>
     logged (fold (handle_client_message P) ms s) =
       logged s @ concat (map (event_lines h) ms)"
  by (auto simp add: events_fold [of ms k s i h P])

theorem C8_listener_stays_registered_witness:
  "handled (fold (handle_client_message example_protocol)
              [example_event, example_event, example_event] example_listener_sent) =
     [(0, example_event), (0, example_event), (0, example_event)] \<and>
   listeners (fold (handle_client_message example_protocol)
              [example_event, example_event, example_event] example_listener_sent) = [(2, 0)]"
  using C8_listener_stays_registered [of "[example_event, example_event, example_event]" 2 example_listener_sent 0
      "\<lambda>_. None" example_protocol]
  by (simp add: example_listener_sent_fields example_event_def)

text \<open>
C9 (as stated, refuted). The claim says that a listener invocation bound to the closed
connection is removed without resolving its future. \<^verbatim>\<open>_send\<close> enters a listener invocation
in the pending table too, and the first loop of \<^verbatim>\<open>connection_closed\<close> fails every pending
invocation bound to the connection: the future of a listener invocation sent on
connection 7, unresolved before, raises the connection-closed error after
\<^verbatim>\<open>connection_closed(7)\<close>.
\<close>

theorem C9_listener_future_untouched_counterexample:
  "map_of (listeners example_listener_sent) 2 = Some 0 \<and>
   connection (invocations example_listener_sent 0) = Some 7 \<and>
   result (future (invocations example_listener_sent 0)) = Blocks \<and>
   result (future (invocations (connection_closed 7 example_listener_sent) 0)) =
     Raises (IOError ''Connection to server was closed.'')"
  by (simp add: example_listener_sent_fields connection_closed_def fail_if_bound_def
      drop_if_bound_def invocations_invocation_set_exception result_def)

text \<open>
C9 (amended). \<^verbatim>\<open>connection_closed\<close> resolves the future of every pending invocation
bound to the closed connection with the connection-closed error and schedules no retry;
it removes from the listeners table every entry whose invocation is bound to the closed
connection; and it leaves untouched every invocation that is not in the pending table. So
a listener invocation keeps its future as it was only if it is no longer pending.
\<close>

theorem C9_connection_closed:
  "(map_of (pending s) k = Some i \<and> connection (invocations s i) = Some c \<longrightarrow>
      result (future (invocations (connection_closed c s) i)) =
        Raises (IOError ''Connection to server was closed.'') \<and>
      timers (connection_closed c s) = timers s) \<and>
   (map_of (listeners s) k = Some i \<and> connection (invocations s i) = Some c \<longrightarrow>
      map_of (listeners (connection_closed c s)) k = None) \<and>
   (i \<notin> snd ` set (pending s) \<longrightarrow>
      invocations (connection_closed c s) i = invocations s i)"
proof (intro conjI impI)
  assume a: "map_of (pending s) k = Some i \<and> connection (invocations s i) = Some c"
  then have "(k, i) \<in> set (pending s)"
    by (simp add: map_of_SomeD)
  with a have "failed_closed (fold (fail_if_bound c) (pending s) s) i"
    by (simp add: fold_fail_fails)
  then show "result (future (invocations (connection_closed c s) i)) =
      Raises (IOError ''Connection to server was closed.'')"
    by (simp add: invocations_connection_closed failed_closed_result)
next
  show "timers (connection_closed c s) = timers s"
    by (simp add: connection_closed_def Let_def)
next
  assume a: "map_of (listeners s) k = Some i \<and> connection (invocations s i) = Some c"
  then have "(k, i) \<in> set (listeners s)"
    by (simp add: map_of_SomeD)
  then show "map_of (listeners (connection_closed c s)) k = None"
    using a by (simp add: listeners_connection_closed fold_drop_removes)
next
  assume "i \<notin> snd ` set (pending s)"
  then show "invocations (connection_closed c s) i = invocations s i"
    by (simp add: invocations_connection_closed fold_fail_untouched)
qed

theorem C9_connection_closed_witness:
  "result (future (invocations (connection_closed 7 example_listener_sent) 0)) =
     Raises (IOError ''Connection to server was closed.'') \<and>
   map_of (listeners (connection_closed 7 example_listener_sent)) 2 = None"
  using C9_connection_closed [of example_listener_sent 2 0 7]
  by (simp add: example_listener_sent_fields)

text \<open>
C10. \<^verbatim>\<open>connection_closed\<close> leaves the pending table as it is, and so does the timeout
callback; a send adds the entry of the new correlation id. A message changes the entry of
a correlation id \<open>k\<close> only if it has no listener flag and carries \<open>k\<close>; such a message,
arriving after \<^verbatim>\<open>connection_closed\<close>, removes the entry.
\<close>

theorem C10_connection_closed_keeps_pending:
  "pending (connection_closed c s) = pending s \<and>
   pending (on_timeout i s) = pending s \<and>
   map_of (pending (priv_invoke wire_send i s)) =
     (map_of (pending s))(next_correlation_id s + 1 \<mapsto> i) \<and>
   (m_listener_flag msg \<or> m_correlation_id msg \<noteq> k \<longrightarrow>
      map_of (pending (handle_client_message P msg s)) k = map_of (pending s) k) \<and>
   (\<not> m_listener_flag msg \<and> m_correlation_id msg = k \<longrightarrow>
      map_of (pending (handle_client_message P msg (connection_closed c s))) k = None)"
proof (intro conjI impI)
  show "pending (connection_closed c s) = pending s"
    by (simp add: pending_connection_closed)
  show "pending (on_timeout i s) = pending s"
    by (simp add: on_timeout_def)
  show "map_of (pending (priv_invoke wire_send i s)) =
      (map_of (pending s))(next_correlation_id s + 1 \<mapsto> i)"
    by (simp add: pending_priv_invoke update_conv')
next
  assume "m_listener_flag msg \<or> m_correlation_id msg \<noteq> k"
  then show "map_of (pending (handle_client_message P msg s)) k = map_of (pending s) k"
    by (auto simp add: handle_client_message_def Let_def debug_def warn_def handle_event_def
        delete_conv split: option.splits)
next
  assume "\<not> m_listener_flag msg \<and> m_correlation_id msg = k"
  then show "map_of (pending (handle_client_message P msg (connection_closed c s))) k = None"
    using handle_client_message_pops [of msg P "connection_closed c s"] by simp
qed

theorem C10_connection_closed_keeps_pending_witness:
  "pending (connection_closed 7 example_listener_sent) = [(2, 0)] \<and>
   map_of (pending (handle_client_message example_protocol example_response
                      (connection_closed 7 example_listener_sent))) 2 = None"
  using C10_connection_closed_keeps_pending
    [where c = 7 and s = example_listener_sent and msg = example_response and k = 2
       and P = example_protocol]
  by (simp add: example_listener_sent_fields example_response_def)

end
